theory Spec2Isabelle
  imports Complex_Main "HOL-Library.Word"
begin

section \<open>Values of the platform\<close>

text \<open>
  A JavaScript string is a sequence of UTF-16 code units; nothing makes it
  well-formed, so a surrogate may stand alone. \<open>ascii\<close> gives the string of an ASCII
  literal.
\<close>

type_synonym js_string = "16 word list"

definition ascii :: "string \<Rightarrow> js_string" where
  "ascii s = map of_char s"

text \<open>
  A value read out of a parsed JSON document. An object is the list of its own
  properties (after parsing the keys are distinct). Numbers are kept as rationals:
  every finite double is one, and the code only asks whether a number is zero.
\<close>

datatype json =
    JNull
  | JBool bool
  | JNumber rat
  | JString js_string
  | JArray "json list"
  | JObject "(string \<times> json) list"

text \<open>A JavaScript value that may be \<open>undefined\<close>: \<open>None\<close> is \<open>undefined\<close>.\<close>

type_synonym js_value = "json option"

text \<open>
  What the code throws. \<open>Error\<close> carries the message given to \<open>new Error\<close>;
  \<open>TypeError\<close>, \<open>SyntaxError\<close> and \<open>URIError\<close> come from the platform (a property
  read on \<open>undefined\<close> or \<open>null\<close>, a failed \<open>fetch\<close>, a body that is not JSON, a text
  that \<open>encodeURIComponent\<close> cannot encode).
\<close>

datatype js_error = Error string | TypeError | SyntaxError | URIError

text \<open>
  A promise, with the time (in milliseconds, counted from the start of the attempt)
  at which it settles. \<open>Pending\<close> never settles.
\<close>

datatype 'a promise = Pending | Rejected js_error nat | Fulfilled 'a nat

text \<open>A value that becomes available at time \<open>t\<close> is not used before \<open>t\<close>.\<close>

fun no_earlier :: "nat \<Rightarrow> 'a promise \<Rightarrow> 'a promise" where
  "no_earlier t Pending = Pending"
| "no_earlier t (Rejected e u) = Rejected e (max t u)"
| "no_earlier t (Fulfilled v u) = Fulfilled v (max t u)"

text \<open>
  \<open>await p\<close> followed by the rest of an async function's body: a rejection of \<open>p\<close>
  rejects the function, a promise that never settles leaves it pending.
\<close>

fun await :: "'a promise \<Rightarrow> ('a \<Rightarrow> 'b promise) \<Rightarrow> 'b promise" where
  "await Pending k = Pending"
| "await (Rejected e t) k = Rejected e t"
| "await (Fulfilled v t) k = no_earlier t (k v)"

text \<open>\<open>!v\<close> is false exactly on the truthy values.\<close>

fun truthy :: "js_value \<Rightarrow> bool" where
  "truthy None = False"
| "truthy (Some JNull) = False"
| "truthy (Some (JBool b)) = b"
| "truthy (Some (JNumber n)) = (n \<noteq> 0)"
| "truthy (Some (JString s)) = (s \<noteq> [])"
| "truthy (Some (JArray xs)) = True"
| "truthy (Some (JObject kvs)) = True"

text \<open>
  \<open>data.k\<close> for a key \<open>k\<close> that no prototype defines (the code reads
  \<open>translation\<close>, \<open>translatedText\<close> and \<open>responseData\<close>): a TypeError on \<open>null\<close>,
  the own property of an object, \<open>undefined\<close> on anything else.
\<close>

fun get_property :: "json \<Rightarrow> string \<Rightarrow> js_error + js_value" where
  "get_property JNull k = Inl TypeError"
| "get_property (JObject kvs) k = Inr (map_of kvs k)"
| "get_property v k = Inr None"

text \<open>\<open>v?.k\<close>: \<open>undefined\<close> when \<open>v\<close> is \<open>undefined\<close> or \<open>null\<close>.\<close>

fun optional_chain :: "js_value \<Rightarrow> string \<Rightarrow> js_value" where
  "optional_chain None k = None"
| "optional_chain (Some JNull) k = None"
| "optional_chain (Some (JObject kvs)) k = map_of kvs k"
| "optional_chain (Some v) k = None"

text \<open>Decimal rendering of a number inside a template literal.\<close>

fun show_nat :: "nat \<Rightarrow> string" where
  "show_nat n =
     (if n < 10 then [''0123456789'' ! n]
      else show_nat (n div 10) @ [''0123456789'' ! (n mod 10)])"

text \<open>
  \<open>encodeURIComponent\<close>. A code unit of the unreserved set stays; any other is
  read as a code point (a leading surrogate with the trailing one after it), whose
  UTF-8 bytes become \<open>%XX\<close>. An unpaired surrogate throws URIError.
\<close>

definition leading_surrogate :: "nat \<Rightarrow> bool" where
  "leading_surrogate c = (0xD800 \<le> c \<and> c \<le> 0xDBFF)"

definition trailing_surrogate :: "nat \<Rightarrow> bool" where
  "trailing_surrogate c = (0xDC00 \<le> c \<and> c \<le> 0xDFFF)"

definition uri_unreserved :: "char list" where
  "uri_unreserved =
     ''ABCDEFGHIJKLMNOPQRSTUVWXYZabcdefghijklmnopqrstuvwxyz0123456789-_.!~*()'' @ [CHR 0x27]"

definition hex_digit :: "nat \<Rightarrow> char" where
  "hex_digit n = ''0123456789ABCDEF'' ! n"

definition percent_encode :: "nat \<Rightarrow> string" where
  "percent_encode b = [CHR ''%'', hex_digit (b div 16), hex_digit (b mod 16)]"

definition utf8 :: "nat \<Rightarrow> nat list" where
  "utf8 cp =
     (if cp < 0x80 then [cp]
      else if cp < 0x800 then [0xC0 + cp div 64, 0x80 + cp mod 64]
      else if cp < 0x10000 then
        [0xE0 + cp div 4096, 0x80 + cp div 64 mod 64, 0x80 + cp mod 64]
      else [0xF0 + cp div 262144, 0x80 + cp div 4096 mod 64, 0x80 + cp div 64 mod 64,
            0x80 + cp mod 64])"

definition escape :: "nat \<Rightarrow> string" where
  "escape cp = concat (map percent_encode (utf8 cp))"

fun encode :: "nat list \<Rightarrow> js_error + string" where
  "encode [] = Inr []"
| "encode (c # cs) =
     (case find (\<lambda>u. of_char u = c) uri_unreserved of
        Some u \<Rightarrow> map_sum id ((#) u) (encode cs)
      | None \<Rightarrow>
          if trailing_surrogate c then Inl URIError
          else if leading_surrogate c then
            (case cs of
               [] \<Rightarrow> Inl URIError
             | d # ds \<Rightarrow>
                 if trailing_surrogate d
                 then map_sum id ((@) (escape ((c - 0xD800) * 0x400 + (d - 0xDC00) + 0x10000)))
                        (encode ds)
                 else Inl URIError)
          else map_sum id ((@) (escape c)) (encode cs))"

definition encodeURIComponent :: "js_string \<Rightarrow> js_error + string" where
  "encodeURIComponent s = encode (map unat s)"

text \<open>A value inside a template literal: \<open>undefined\<close> prints as the word.\<close>

fun template :: "string option \<Rightarrow> string" where
  "template None = ''undefined''"
| "template (Some s) = s"

text \<open>
  \<open>JSON.stringify\<close> of an object literal, as the document it denotes: a property
  whose value is \<open>undefined\<close> is left out.
\<close>

definition JSON_stringify :: "(string \<times> js_value) list \<Rightarrow> json" where
  "JSON_stringify props =
     JObject (concat (map (\<lambda>(k, v). case v of None \<Rightarrow> [] | Some j \<Rightarrow> [(k, j)]) props))"

section \<open>Requests and responses\<close>

text \<open>
  The arguments of \<open>fetch\<close>. \<open>signal\<close> is the abort signal of the init dictionary,
  named by the number of the controller that owns it; a request without one cannot
  be aborted.
\<close>

record request =
  url :: string
  "method" :: string
  headers :: "(string \<times> string) list"
  body :: "json option"
  signal :: "nat option"

text \<open>\<open>fetch(url)\<close> with no init dictionary.\<close>

definition fetch_get :: "string \<Rightarrow> request" where
  "fetch_get u = \<lparr>url = u, method = ''GET'', headers = [], body = None, signal = None\<rparr>"

text \<open>A response: its status and what \<open>response.json()\<close> returns.\<close>

record response =
  status :: nat
  json :: "json promise"

text \<open>\<open>response.ok\<close>: the status is in the range 200 to 299.\<close>

definition ok :: "response \<Rightarrow> bool" where
  "ok r = (200 \<le> status r \<and> status r \<le> 299)"

text \<open>The network: what \<open>fetch\<close> returns for each request.\<close>

type_synonym network = "request \<Rightarrow> response promise"

section \<open>Configuration\<close>

record api =
  api_name :: string
  endpoint :: string
  api_type :: string

definition APIS :: "api list" where
  "APIS =
     [\<lparr>api_name = ''Lingva Translate'', endpoint = ''https://lingva.ml/api/v1'',
       api_type = ''lingva''\<rparr>,
      \<lparr>api_name = ''MyMemory'', endpoint = ''https://api.mymemory.translated.net/get'',
       api_type = ''mymemory''\<rparr>,
      \<lparr>api_name = ''LibreTranslate'', endpoint = ''https://libretranslate.com/translate'',
       api_type = ''libretranslate''\<rparr>]"

record language =
  name :: string
  rtl :: bool
  code :: string

definition LANGUAGES :: "(string \<times> language) list" where
  "LANGUAGES =
     [(''en'', \<lparr>name = ''English'', rtl = False, code = ''en''\<rparr>),
      (''ur'', \<lparr>name = ''Urdu'', rtl = True, code = ''ur''\<rparr>),
      (''hi'', \<lparr>name = ''Hindi'', rtl = False, code = ''hi''\<rparr>),
      (''fr'', \<lparr>name = ''French'', rtl = False, code = ''fr''\<rparr>)]"

text \<open>
  \<open>CONFIG.LANGUAGES\<close> is an object literal, so a key it does not own is looked up in
  \<open>Object.prototype\<close>. The table gives, for each property of \<open>Object.prototype\<close>,
  the \<open>name\<close> of the value found there (\<open>__proto__\<close> yields the prototype object,
  which has none); none of these values has a \<open>code\<close>.
\<close>

definition Object_prototype :: "(string \<times> string option) list" where
  "Object_prototype =
     [(''constructor'', Some ''Object''),
      (''__defineGetter__'', Some ''__defineGetter__''),
      (''__defineSetter__'', Some ''__defineSetter__''),
      (''hasOwnProperty'', Some ''hasOwnProperty''),
      (''__lookupGetter__'', Some ''__lookupGetter__''),
      (''__lookupSetter__'', Some ''__lookupSetter__''),
      (''isPrototypeOf'', Some ''isPrototypeOf''),
      (''propertyIsEnumerable'', Some ''propertyIsEnumerable''),
      (''toString'', Some ''toString''),
      (''valueOf'', Some ''valueOf''),
      (''__proto__'', None),
      (''toLocaleString'', Some ''toLocaleString'')]"

datatype lookup = Undefined | Own language | Inherited "string option"

definition CONFIG_LANGUAGES :: "string \<Rightarrow> lookup" where
  "CONFIG_LANGUAGES k =
     (case map_of LANGUAGES k of
        Some l \<Rightarrow> Own l
      | None \<Rightarrow>
          (case map_of Object_prototype k of
             Some n \<Rightarrow> Inherited n
           | None \<Rightarrow> Undefined))"

text \<open>\<open>CONFIG.LANGUAGES[targetLang].name\<close> and \<open>CONFIG.LANGUAGES[targetLang].code\<close>.\<close>

fun name_of :: "lookup \<Rightarrow> js_error + string option" where
  "name_of Undefined = Inl TypeError"
| "name_of (Own l) = Inr (Some (name l))"
| "name_of (Inherited n) = Inr n"

fun code_of :: "lookup \<Rightarrow> js_error + string option" where
  "code_of Undefined = Inl TypeError"
| "code_of (Own l) = Inr (Some (code l))"
| "code_of (Inherited n) = Inr None"

section \<open>Provider adapters\<close>

record translation =
  translatedText :: js_value
  apiUsed :: string

text \<open>
  An adapter returns the requests it handed to \<open>fetch\<close> and the promise of its
  result.
\<close>

type_synonym adapter =
  "network \<Rightarrow> js_string \<Rightarrow> string \<Rightarrow> request list \<times> translation promise"

definition translateWithLingva :: adapter where
  "translateWithLingva net text targetLang =
     (let api = APIS ! 0 in
      case code_of (CONFIG_LANGUAGES targetLang) of
        Inl e \<Rightarrow> ([], Rejected e 0)
      | Inr targetCode \<Rightarrow>
          (case encodeURIComponent text of
             Inl e \<Rightarrow> ([], Rejected e 0)
           | Inr encoded \<Rightarrow>
               (let req = fetch_get
                      (endpoint api @ ''/auto/'' @ template targetCode @ ''/'' @ encoded)
                in ([req],
                    await (net req) (\<lambda>response.
                      if \<not> ok response
                      then Rejected (Error (''HTTP '' @ show_nat (status response))) 0
                      else await (json response) (\<lambda>data.
                        case get_property data ''translation'' of
                          Inl e \<Rightarrow> Rejected e 0
                        | Inr v \<Rightarrow>
                            if \<not> truthy v
                            then Rejected (Error ''No translation in response'') 0
                            else Fulfilled
                                   \<lparr>translatedText = v, apiUsed = api_name api\<rparr> 0))))))"

definition translateWithMyMemory :: adapter where
  "translateWithMyMemory net text targetLang =
     (let api = APIS ! 1 in
      case code_of (CONFIG_LANGUAGES targetLang) of
        Inl e \<Rightarrow> ([], Rejected e 0)
      | Inr targetCode \<Rightarrow>
          (case encodeURIComponent text of
             Inl e \<Rightarrow> ([], Rejected e 0)
           | Inr encoded \<Rightarrow>
               (let req = fetch_get
                      (endpoint api @ ''?q='' @ encoded @ ''&langpair=en|'' @
                       template targetCode)
                in ([req],
                    await (net req) (\<lambda>response.
                      if \<not> ok response
                      then Rejected (Error (''HTTP '' @ show_nat (status response))) 0
                      else await (json response) (\<lambda>data.
                        case get_property data ''responseData'' of
                          Inl e \<Rightarrow> Rejected e 0
                        | Inr responseData \<Rightarrow>
                            (let v = optional_chain responseData ''translatedText'' in
                             if \<not> truthy v
                             then Rejected (Error ''No translation in response'') 0
                             else Fulfilled
                                    \<lparr>translatedText = v, apiUsed = api_name api\<rparr> 0)))))))"

definition translateWithLibreTranslate :: adapter where
  "translateWithLibreTranslate net text targetLang =
     (let api = APIS ! 2 in
      case code_of (CONFIG_LANGUAGES targetLang) of
        Inl e \<Rightarrow> ([], Rejected e 0)
      | Inr targetCode \<Rightarrow>
          (let req = \<lparr>url = endpoint api, method = ''POST'',
                      headers = [(''Content-Type'', ''application/json'')],
                      body = Some (JSON_stringify
                        [(''q'', Some (JString text)),
                         (''source'', Some (JString (ascii ''en''))),
                         (''target'', map_option (\<lambda>c. JString (ascii c)) targetCode),
                         (''format'', Some (JString (ascii ''text'')))]),
                      signal = None\<rparr>
           in ([req],
               await (net req) (\<lambda>response.
                 if \<not> ok response
                 then Rejected (Error (''HTTP '' @ show_nat (status response))) 0
                 else await (json response) (\<lambda>data.
                   case get_property data ''translatedText'' of
                     Inl e \<Rightarrow> Rejected e 0
                   | Inr v \<Rightarrow>
                       if \<not> truthy v
                       then Rejected (Error ''No translation in response'') 0
                       else Fulfilled \<lparr>translatedText = v, apiUsed = api_name api\<rparr> 0)))))"

section \<open>Fallback orchestrator\<close>

text \<open>What \<open>translateText\<close> returns: the adapter's two fields and two nulls.\<close>

record detected_translation = translation +
  detectedLanguage :: js_value
  detectedConfidence :: js_value

text \<open>
  The state of the page's script. \<open>CONFIG\<close> is bound by \<open>const\<close> and no statement of the
  script assigns to its tables \<open>APIS\<close> and \<open>LANGUAGES\<close> or to their entries, so these
  are the constants above; \<open>CONFIG.currentAPIIndex\<close> and the two \<open>let\<close> variables are
  kept as state.
\<close>

record module_state =
  currentAPIIndex :: nat
  selectedTargetLang :: "string option"
  isTranslating :: bool

text \<open>
  The world a call runs in and leaves behind: the state of the script, and the
  record of what has happened so far: the adapters called (by index, in call
  order), the requests handed to \<open>fetch\<close>, the failures reported by \<open>console.warn\<close>,
  and, for the requests of an attempt that the timer ended, which of them the
  controller's \<open>abort()\<close> cancelled and which it left in flight.
\<close>

record world =
  globals :: module_state
  invoked :: "nat list"
  fetched :: "request list"
  warned :: "(nat \<times> js_error) list"
  aborted :: "request list"
  abandoned :: "request list"

text \<open>The world when the script has been loaded and nothing has happened yet.\<close>

definition start :: world where
  "start =
     \<lparr>globals = \<lparr>currentAPIIndex = 0, selectedTargetLang = None, isTranslating = False\<rparr>,
      invoked = [], fetched = [], warned = [], aborted = [], abandoned = []\<rparr>"

definition apis :: "adapter list" where
  "apis = [translateWithLingva, translateWithMyMemory, translateWithLibreTranslate]"

text \<open>The delay given to \<open>setTimeout\<close>, in milliseconds.\<close>

definition TIMEOUT :: nat where
  "TIMEOUT = 10000"

text \<open>
  The timer is armed before the adapter is called; it ends the attempt unless the
  adapter's promise has settled before it fires.
\<close>

fun timed_out :: "'a promise \<Rightarrow> bool" where
  "timed_out Pending = True"
| "timed_out (Rejected e t) = (TIMEOUT \<le> t)"
| "timed_out (Fulfilled v t) = (TIMEOUT \<le> t)"

text \<open>
  \<open>await Promise.race([resultPromise, timer])\<close>: the value of the adapter's promise
  when it settles first, the rejection \<open>Request timeout\<close> otherwise.
\<close>

fun race :: "'a promise \<Rightarrow> js_error + 'a" where
  "race Pending = Inl (Error ''Request timeout'')"
| "race (Rejected e t) = (if TIMEOUT \<le> t then Inl (Error ''Request timeout'') else Inl e)"
| "race (Fulfilled v t) = (if TIMEOUT \<le> t then Inl (Error ''Request timeout'') else Inr v)"

text \<open>
  \<open>controller.abort()\<close> of the attempt's controller \<open>c\<close>, with the requests \<open>reqs\<close> of
  the attempt still in flight: those carrying the signal of \<open>c\<close> are cancelled, the
  others go on.
\<close>

definition abort :: "nat \<Rightarrow> request list \<Rightarrow> world \<Rightarrow> world" where
  "abort c reqs w =
     w\<lparr>aborted := aborted w @ filter (\<lambda>r. signal r = Some c) reqs,
       abandoned := abandoned w @ filter (\<lambda>r. signal r \<noteq> Some c) reqs\<rparr>"

text \<open>The object built by the \<open>return\<close> inside the loop.\<close>

definition returned :: "translation \<Rightarrow> detected_translation" where
  "returned result =
     \<lparr>translatedText = translatedText result, apiUsed = apiUsed result,
      detectedLanguage = Some JNull, detectedConfidence = Some JNull\<rparr>"

text \<open>The call \<open>apis[i](text, targetLang)\<close>, which hands \<open>reqs\<close> to \<open>fetch\<close>.\<close>

definition called :: "nat \<Rightarrow> request list \<Rightarrow> world \<Rightarrow> world" where
  "called i reqs w = w\<lparr>invoked := invoked w @ [i], fetched := fetched w @ reqs\<rparr>"

text \<open>
  An attempt that ends in the \<open>catch\<close> block with \<open>error\<close>: when the timer ended it,
  the controller's \<open>abort()\<close> has run; then the failure is reported.
\<close>

definition caught ::
  "nat \<Rightarrow> request list \<Rightarrow> translation promise \<Rightarrow> js_error \<Rightarrow> world \<Rightarrow> world"
where
  "caught i reqs resultPromise error w =
     (let w' = (if timed_out resultPromise then abort i reqs w else w)
      in w'\<lparr>warned := warned w' @ [(i + 1, error)]\<rparr>)"

text \<open>The \<open>for\<close> loop of \<open>translateText\<close> from index \<open>i\<close>, and the \<open>throw\<close> after it.\<close>

function translate_loop ::
  "network \<Rightarrow> js_string \<Rightarrow> string \<Rightarrow> nat \<Rightarrow> world \<Rightarrow>
     (js_error + detected_translation) \<times> world"
where
  "translate_loop net text targetLang i w =
     (if i < length apis then
        (case (apis ! i) net text targetLang of
           (reqs, resultPromise) \<Rightarrow>
             (case race resultPromise of
                Inr result \<Rightarrow> (Inr (returned result), called i reqs w)
              | Inl error \<Rightarrow>
                  (let w' = caught i reqs resultPromise error (called i reqs w)
                   in if i = length apis - 1
                      then (Inl (Error ''All translation APIs failed. Please try again later.''),
                            w')
                      else translate_loop net text targetLang (i + 1) w')))
      else (Inl (Error ''Translation failed with all APIs''), w))"
  by pat_completeness auto
termination
  by (relation "measure (\<lambda>(net, text, targetLang, i, w). length apis - i)") auto

text \<open>
  \<open>translateText\<close>, called in the world \<open>w\<close>: the first line reads
  \<open>CONFIG.LANGUAGES[targetLang].name\<close> for the log, before the loop.
\<close>

definition translateText ::
  "network \<Rightarrow> js_string \<Rightarrow> string \<Rightarrow> world \<Rightarrow> (js_error + detected_translation) \<times> world"
where
  "translateText net text targetLang w =
     (case name_of (CONFIG_LANGUAGES targetLang) of
        Inl e \<Rightarrow> (Inl e, w)
      | Inr n \<Rightarrow> translate_loop net text targetLang 0 w)"

section \<open>Vocabulary of the specification\<close>

text \<open>A target language is valid when the registry has it.\<close>

definition valid_language :: "string \<Rightarrow> bool" where
  "valid_language targetLang = (targetLang \<in> set (map fst LANGUAGES))"

text \<open>
  An attempt fails when the adapter's promise is rejected, never settles, or is
  fulfilled only once the 10000 ms of the timer have passed.
\<close>

fun attempt_fails :: "'a promise \<Rightarrow> bool" where
  "attempt_fails Pending = True"
| "attempt_fails (Rejected e t) = True"
| "attempt_fails (Fulfilled v t) = (10000 \<le> t)"

text \<open>
  A string is well-formed when every surrogate in it is paired: a leading one is
  followed by a trailing one, and a trailing one follows a leading one.
\<close>

fun well_formed :: "nat list \<Rightarrow> bool" where
  "well_formed [] = True"
| "well_formed (c # cs) =
     (if trailing_surrogate c then False
      else if leading_surrogate c then
        (case cs of [] \<Rightarrow> False | d # ds \<Rightarrow> trailing_surrogate d \<and> well_formed ds)
      else well_formed cs)"

definition isWellFormed :: "js_string \<Rightarrow> bool" where
  "isWellFormed s = well_formed (map unat s)"

text \<open>An attempt exceeds the timeout when its promise has not settled by then.\<close>

fun exceeds_timeout :: "'a promise \<Rightarrow> bool" where
  "exceeds_timeout Pending = True"
| "exceeds_timeout (Rejected e t) = (TIMEOUT < t)"
| "exceeds_timeout (Fulfilled v t) = (TIMEOUT < t)"

text \<open>
  The translated-text field each provider is expected to answer with, by the
  adapter's index: \<open>translation\<close>, \<open>responseData.translatedText\<close>, \<open>translatedText\<close>.
  \<open>None\<close> when the body has no such field.
\<close>

fun member :: "json \<Rightarrow> string \<Rightarrow> js_value" where
  "member (JObject kvs) k = map_of kvs k"
| "member v k = None"

definition expected_field :: "nat \<Rightarrow> json \<Rightarrow> js_value" where
  "expected_field i data =
     (if i = 0 then member data ''translation''
      else if i = 1 then
        (case member data ''responseData'' of
           None \<Rightarrow> None
         | Some responseData \<Rightarrow> member responseData ''translatedText'')
      else member data ''translatedText'')"

fun rejected_at :: "nat \<Rightarrow> 'a promise \<Rightarrow> bool" where
  "rejected_at t (Rejected e u) = (u = t)"
| "rejected_at t p = False"

text \<open>
  What an adapter's promise \<open>p\<close> is, given the reply of \<open>fetch\<close>: pending while the
  exchange is; rejected when the transport fails, the status is not a success, the
  body cannot be read, or the expected field holds no truthy value; fulfilled with
  the field's value and the provider's name otherwise.
\<close>

definition adapter_contract :: "nat \<Rightarrow> response promise \<Rightarrow> translation promise \<Rightarrow> bool" where
  "adapter_contract i reply p =
     (case reply of
        Pending \<Rightarrow> p = Pending
      | Rejected e t \<Rightarrow> p = Rejected e t
      | Fulfilled response t \<Rightarrow>
          if \<not> ok response
          then p = Rejected (Error (''HTTP '' @ show_nat (status response))) t
          else (case json response of
                  Pending \<Rightarrow> p = Pending
                | Rejected e u \<Rightarrow> p = Rejected e (max t u)
                | Fulfilled data u \<Rightarrow>
                    if truthy (expected_field i data)
                    then p = Fulfilled \<lparr>translatedText = expected_field i data,
                                        apiUsed = api_name (APIS ! i)\<rparr> (max t u)
                    else rejected_at (max t u) p))"

section \<open>Example networks\<close>

text \<open>Every provider is unreachable: \<open>fetch\<close> rejects after 40 ms.\<close>

definition unreachable :: network where
  "unreachable req = Rejected TypeError 40"

text \<open>No provider ever answers.\<close>

definition silent :: network where
  "silent req = Pending"

text \<open>Every provider answers with status 500.\<close>

definition failing :: network where
  "failing req = Fulfilled \<lparr>status = 500, json = Rejected SyntaxError 90\<rparr> 80"

text \<open>Lingva answers \<open>Bonjour, le monde!\<close>; the others are unreachable.\<close>

definition lingva_up :: network where
  "lingva_up req =
     (if take 17 (url req) = ''https://lingva.ml''
      then Fulfilled
             \<lparr>status = 200,
              json = Fulfilled (JObject [(''translation'', JString (ascii ''Bonjour, le monde!''))]) 130\<rparr>
             120
      else Rejected TypeError 40)"

text \<open>Lingva answers with status 500, MyMemory with a translation.\<close>

definition mymemory_up :: network where
  "mymemory_up req =
     (if take 17 (url req) = ''https://lingva.ml''
      then Fulfilled \<lparr>status = 500, json = Rejected SyntaxError 90\<rparr> 80
      else Fulfilled
             \<lparr>status = 200,
              json = Fulfilled
                (JObject [(''responseData'',
                   JObject [(''translatedText'', JString (ascii ''Bonjour''))])]) 210\<rparr>
             200)"

text \<open>Lingva answers too late, after 15 seconds; MyMemory answers in time.\<close>

definition lingva_slow :: network where
  "lingva_slow req =
     (if take 17 (url req) = ''https://lingva.ml''
      then Fulfilled
             \<lparr>status = 200,
              json = Fulfilled (JObject [(''translation'', JString (ascii ''Bonjour''))]) 15000\<rparr>
             14000
      else Fulfilled
             \<lparr>status = 200,
              json = Fulfilled
                (JObject [(''responseData'',
                   JObject [(''translatedText'', JString (ascii ''Salut''))])]) 210\<rparr>
             200)"

text \<open>Every provider answers 200 with an empty translation.\<close>

definition empty_translation :: network where
  "empty_translation req =
     Fulfilled
       \<lparr>status = 200,
        json = Fulfilled
          (JObject [(''translation'', JString []), (''translatedText'', JString [])]) 130\<rparr>
       120"

text \<open>
  As \<open>lingva_up\<close> for the requests that ask Lingva for French; every other request
  finds the provider unreachable.
\<close>

definition lingva_up_french :: network where
  "lingva_up_french req =
     (if take 33 (url req) = ''https://lingva.ml/api/v1/auto/fr/''
      then Fulfilled
             \<lparr>status = 200,
              json = Fulfilled (JObject [(''translation'', JString (ascii ''Bonjour, le monde!''))]) 130\<rparr>
             120
      else Rejected TypeError 40)"

section \<open>Facts about the loop\<close>

declare translate_loop.simps [simp del]
declare show_nat.simps [simp del]

lemma length_apis: "length apis = 3"
  by (simp add: apis_def)

lemma apis_nth:
  "apis ! 0 = translateWithLingva" "apis ! Suc 0 = translateWithMyMemory"
  "apis ! 2 = translateWithLibreTranslate"
  by (simp_all add: apis_def numeral_2_eq_2)

lemma loop_returns:
  assumes "i < length apis" and "(apis ! i) net text targetLang = (reqs, p)"
    and "race p = Inr result"
  shows "translate_loop net text targetLang i w = (Inr (returned result), called i reqs w)"
  using assms by (subst translate_loop.simps) simp

lemma loop_continues:
  assumes "i < length apis" and "(apis ! i) net text targetLang = (reqs, p)"
    and "race p = Inl e"
  shows "translate_loop net text targetLang i w =
    (if i = length apis - 1
     then (Inl (Error ''All translation APIs failed. Please try again later.''),
           caught i reqs p e (called i reqs w))
     else translate_loop net text targetLang (i + 1) (caught i reqs p e (called i reqs w)))"
  using assms by (subst translate_loop.simps) (simp add: Let_def)

lemma loop_unrolled:
  "translate_loop net text targetLang 0 w =
     (case race (snd (translateWithLingva net text targetLang)) of
        Inr r \<Rightarrow> (Inr (returned r), called 0 (fst (translateWithLingva net text targetLang)) w)
      | Inl e0 \<Rightarrow>
          (let w0 = caught 0 (fst (translateWithLingva net text targetLang))
                      (snd (translateWithLingva net text targetLang)) e0
                      (called 0 (fst (translateWithLingva net text targetLang)) w)
           in case race (snd (translateWithMyMemory net text targetLang)) of
                Inr r \<Rightarrow>
                  (Inr (returned r),
                   called 1 (fst (translateWithMyMemory net text targetLang)) w0)
              | Inl e1 \<Rightarrow>
                  (let w1 = caught 1 (fst (translateWithMyMemory net text targetLang))
                              (snd (translateWithMyMemory net text targetLang)) e1
                              (called 1 (fst (translateWithMyMemory net text targetLang)) w0)
                   in case race (snd (translateWithLibreTranslate net text targetLang)) of
                        Inr r \<Rightarrow>
                          (Inr (returned r),
                           called 2 (fst (translateWithLibreTranslate net text targetLang)) w1)
                      | Inl e2 \<Rightarrow>
                          (Inl (Error ''All translation APIs failed. Please try again later.''),
                           caught 2 (fst (translateWithLibreTranslate net text targetLang))
                             (snd (translateWithLibreTranslate net text targetLang)) e2
                             (called 2 (fst (translateWithLibreTranslate net text targetLang))
                                w1)))))"
proof -
  have A: "(apis ! 0) net text targetLang =
      (fst (translateWithLingva net text targetLang), snd (translateWithLingva net text targetLang))"
    by (simp add: apis_nth)
  have B: "(apis ! 1) net text targetLang =
      (fst (translateWithMyMemory net text targetLang),
       snd (translateWithMyMemory net text targetLang))"
    by (simp add: apis_nth)
  have C: "(apis ! 2) net text targetLang =
      (fst (translateWithLibreTranslate net text targetLang),
       snd (translateWithLibreTranslate net text targetLang))"
    by (simp add: apis_nth)
  have n: "0 < length apis" "1 < length apis" "2 < length apis"
    by (simp_all add: length_apis)
  show ?thesis
  proof (cases "race (snd (translateWithLingva net text targetLang))")
    case (Inr r)
    then show ?thesis
      using loop_returns [OF n(1) A Inr, of w] by simp
  next
    case e0: (Inl e0)
    show ?thesis
    proof (cases "race (snd (translateWithMyMemory net text targetLang))")
      case (Inr r)
      then show ?thesis
        using loop_continues [OF n(1) A e0, of w] loop_returns [OF n(2) B Inr] e0
        by (simp add: length_apis numeral_2_eq_2)
    next
      case e1: (Inl e1)
      show ?thesis
      proof (cases "race (snd (translateWithLibreTranslate net text targetLang))")
        case (Inr r)
        then show ?thesis
          using loop_continues [OF n(1) A e0, of w] loop_continues [OF n(2) B e1]
            loop_returns [OF n(3) C Inr] e0 e1
          by (simp add: length_apis numeral_2_eq_2)
      next
        case e2: (Inl e2)
        then show ?thesis
          using loop_continues [OF n(1) A e0, of w] loop_continues [OF n(2) B e1]
            loop_continues [OF n(3) C e2] e0 e1
          by (simp add: length_apis numeral_2_eq_2)
      qed
    qed
  qed
qed

section \<open>Facts about strings\<close>

lemma of_char_less: "(of_char c :: nat) < 256"
proof -
  have "(of_char c :: nat) mod 256 < 256"
    by simp
  then show ?thesis
    by (simp only: of_char_mod_256)
qed

lemma unat_of_char: "unat (of_char c :: 16 word) = of_char c"
proof -
  have "unat (of_nat (of_char c) :: 16 word) = of_char c mod 2 ^ 16"
    by (simp only: unat_of_nat len_of_numeral_defs) simp
  moreover have "(of_char c :: nat) mod 2 ^ 16 = of_char c"
    by (intro mod_less order_less_trans [OF of_char_less]) simp
  ultimately show ?thesis
    by (simp only: of_nat_of_char)
qed

lemma unat_ascii: "map unat (ascii s) = map of_char s"
  by (simp add: ascii_def unat_of_char)

lemma ascii_eq_Nil: "ascii s = [] \<longleftrightarrow> s = []"
  by (simp add: ascii_def)

lemma unreserved_not_surrogate:
  assumes "find (\<lambda>u. of_char u = c) uri_unreserved = Some u"
  shows "\<not> trailing_surrogate c" and "\<not> leading_surrogate c"
proof -
  from assms have "of_char u = c"
    by (auto simp add: find_Some_iff)
  with of_char_less [of u] have "c < 256"
    by simp
  then show "\<not> trailing_surrogate c" and "\<not> leading_surrogate c"
    by (simp_all add: trailing_surrogate_def leading_surrogate_def)
qed

lemma encode_well_formed:
  "well_formed cs \<longleftrightarrow> (\<exists>s. encode cs = Inr s)"
proof (induction cs rule: well_formed.induct)
  case 1
  show ?case by simp
next
  case (2 c cs)
  show ?case
  proof (cases "find (\<lambda>u. of_char u = c) uri_unreserved")
    case (Some u)
    from unreserved_not_surrogate [OF Some] 2(2) Some show ?thesis
      by (cases "encode cs") auto
  next
    case None
    show ?thesis
    proof (cases "trailing_surrogate c")
      case True
      with None show ?thesis by simp
    next
      case nt: False
      show ?thesis
      proof (cases "leading_surrogate c")
        case False
        with nt None 2(2) show ?thesis
          by (cases "encode cs") auto
      next
        case True
        show ?thesis
        proof (cases cs)
          case Nil
          with nt True None show ?thesis by simp
        next
          case (Cons d ds)
          with nt True None 2(1) [OF nt True Cons] show ?thesis
            by (cases "encode ds") auto
        qed
      qed
    qed
  qed
qed

lemma map_sum_id_Inl: "map_sum id f x = Inl e \<longleftrightarrow> x = Inl e"
  by (cases x) simp_all

lemma encode_error: "encode cs = Inl e \<Longrightarrow> e = URIError"
proof (induction cs arbitrary: e rule: encode.induct)
  case 1
  then show ?case by simp
next
  case (2 c cs)
  then show ?case
    by (auto simp add: map_sum_id_Inl split: option.splits if_splits list.splits)
qed

lemma encodeURIComponent_cases:
  "(isWellFormed text \<and> (\<exists>s. encodeURIComponent text = Inr s)) \<or>
   (\<not> isWellFormed text \<and> encodeURIComponent text = Inl URIError)"
proof (cases "encodeURIComponent text")
  case (Inl e)
  with encode_error [of "map unat text" e] encode_well_formed [of "map unat text"]
  show ?thesis
    by (simp add: encodeURIComponent_def isWellFormed_def)
next
  case (Inr s)
  with encode_well_formed [of "map unat text"] show ?thesis
    by (simp add: encodeURIComponent_def isWellFormed_def)
qed

section \<open>Facts about the adapters\<close>

lemma valid_language_code:
  "valid_language targetLang \<Longrightarrow> code_of (CONFIG_LANGUAGES targetLang) = Inr (Some targetLang)"
  by (auto simp add: valid_language_def LANGUAGES_def CONFIG_LANGUAGES_def)

lemma await_contract:
  assumes K: "\<And>data.
      if truthy (expected_field i data)
      then K data = Fulfilled \<lparr>translatedText = expected_field i data,
                               apiUsed = api_name (APIS ! i)\<rparr> 0
      else rejected_at 0 (K data)"
  shows "adapter_contract i reply
           (await reply (\<lambda>response.
              if \<not> ok response
              then Rejected (Error (''HTTP '' @ show_nat (status response))) 0
              else await (json response) K))"
proof (cases reply)
  case Pending
  then show ?thesis by (simp add: adapter_contract_def)
next
  case (Rejected e t)
  then show ?thesis by (simp add: adapter_contract_def)
next
  case outer: (Fulfilled response t)
  show ?thesis
  proof (cases "ok response")
    case False
    with outer show ?thesis by (simp add: adapter_contract_def)
  next
    case True
    show ?thesis
    proof (cases "json response")
      case Pending
      with outer True show ?thesis by (simp add: adapter_contract_def)
    next
      case (Rejected e u)
      with outer True show ?thesis by (simp add: adapter_contract_def)
    next
      case (Fulfilled data u)
      show ?thesis
      proof (cases "truthy (expected_field i data)")
        case yes: True
        with K [of data] have "K data = Fulfilled \<lparr>translatedText = expected_field i data,
            apiUsed = api_name (APIS ! i)\<rparr> 0"
          by simp
        with outer True Fulfilled yes show ?thesis
          by (simp add: adapter_contract_def)
      next
        case no: False
        with K [of data] have "rejected_at 0 (K data)"
          by simp
        then obtain e where "K data = Rejected e 0"
          by (cases "K data") simp_all
        with outer True Fulfilled no show ?thesis
          by (simp add: adapter_contract_def)
      qed
    qed
  qed
qed

lemma lingva_contract:
  assumes "code_of (CONFIG_LANGUAGES targetLang) = Inr c"
    and "encodeURIComponent text = Inr encoded"
  shows "\<exists>req. fst (translateWithLingva net text targetLang) = [req] \<and> signal req = None \<and>
           adapter_contract 0 (net req) (snd (translateWithLingva net text targetLang))"
proof -
  have K: "if truthy (expected_field 0 data)
      then (case get_property data ''translation'' of
              Inl e \<Rightarrow> Rejected e 0
            | Inr v \<Rightarrow>
                if \<not> truthy v then Rejected (Error ''No translation in response'') 0
                else Fulfilled \<lparr>translatedText = v, apiUsed = api_name (APIS ! 0)\<rparr> 0) =
           Fulfilled \<lparr>translatedText = expected_field 0 data, apiUsed = api_name (APIS ! 0)\<rparr> 0
      else rejected_at 0 (case get_property data ''translation'' of
              Inl e \<Rightarrow> Rejected e 0
            | Inr v \<Rightarrow>
                if \<not> truthy v then Rejected (Error ''No translation in response'') 0
                else Fulfilled \<lparr>translatedText = v, apiUsed = api_name (APIS ! 0)\<rparr> 0)"
    for data
    by (cases data) (simp_all add: expected_field_def)
  show ?thesis
    unfolding translateWithLingva_def Let_def
    using assms await_contract [of 0, OF K]
    by (simp add: fetch_get_def)
qed

lemma mymemory_contract:
  assumes "code_of (CONFIG_LANGUAGES targetLang) = Inr c"
    and "encodeURIComponent text = Inr encoded"
  shows "\<exists>req. fst (translateWithMyMemory net text targetLang) = [req] \<and> signal req = None \<and>
           adapter_contract 1 (net req) (snd (translateWithMyMemory net text targetLang))"
proof -
  have K: "if truthy (expected_field 1 data)
      then (case get_property data ''responseData'' of
              Inl e \<Rightarrow> Rejected e 0
            | Inr responseData \<Rightarrow>
                (let v = optional_chain responseData ''translatedText'' in
                 if \<not> truthy v then Rejected (Error ''No translation in response'') 0
                 else Fulfilled \<lparr>translatedText = v, apiUsed = api_name (APIS ! 1)\<rparr> 0)) =
           Fulfilled \<lparr>translatedText = expected_field 1 data, apiUsed = api_name (APIS ! 1)\<rparr> 0
      else rejected_at 0 (case get_property data ''responseData'' of
              Inl e \<Rightarrow> Rejected e 0
            | Inr responseData \<Rightarrow>
                (let v = optional_chain responseData ''translatedText'' in
                 if \<not> truthy v then Rejected (Error ''No translation in response'') 0
                 else Fulfilled \<lparr>translatedText = v, apiUsed = api_name (APIS ! 1)\<rparr> 0))"
    for data
  proof (cases data)
    case (JObject kvs)
    show ?thesis
    proof (cases "map_of kvs ''responseData''")
      case None
      with JObject show ?thesis by (simp add: expected_field_def)
    next
      case (Some responseData)
      with JObject show ?thesis
        by (cases responseData) (simp_all add: expected_field_def Let_def)
    qed
  qed (simp_all add: expected_field_def)
  show ?thesis
    unfolding translateWithMyMemory_def Let_def
    using assms await_contract [of 1, OF K [unfolded Let_def]]
    by (simp add: fetch_get_def)
qed

lemma libretranslate_contract:
  assumes "code_of (CONFIG_LANGUAGES targetLang) = Inr c"
  shows "\<exists>req. fst (translateWithLibreTranslate net text targetLang) = [req] \<and>
           signal req = None \<and>
           adapter_contract 2 (net req) (snd (translateWithLibreTranslate net text targetLang))"
proof -
  have K: "if truthy (expected_field 2 data)
      then (case get_property data ''translatedText'' of
              Inl e \<Rightarrow> Rejected e 0
            | Inr v \<Rightarrow>
                if \<not> truthy v then Rejected (Error ''No translation in response'') 0
                else Fulfilled \<lparr>translatedText = v, apiUsed = api_name (APIS ! 2)\<rparr> 0) =
           Fulfilled \<lparr>translatedText = expected_field 2 data, apiUsed = api_name (APIS ! 2)\<rparr> 0
      else rejected_at 0 (case get_property data ''translatedText'' of
              Inl e \<Rightarrow> Rejected e 0
            | Inr v \<Rightarrow>
                if \<not> truthy v then Rejected (Error ''No translation in response'') 0
                else Fulfilled \<lparr>translatedText = v, apiUsed = api_name (APIS ! 2)\<rparr> 0)"
    for data
    by (cases data) (simp_all add: expected_field_def)
  show ?thesis
    unfolding translateWithLibreTranslate_def Let_def
    using assms await_contract [of 2, OF K]
    by simp
qed

lemma apis_undefined:
  assumes "code_of (CONFIG_LANGUAGES targetLang) = Inl e" and "i < length apis"
  shows "(apis ! i) net text targetLang = ([], Rejected e 0)"
proof -
  from assms(2) have "i = 0 \<or> i = Suc 0 \<or> i = 2"
    by (auto simp add: length_apis)
  with assms(1) show ?thesis
    by (auto simp add: apis_nth translateWithLingva_def translateWithMyMemory_def
        translateWithLibreTranslate_def)
qed

lemma apis_unencodable:
  assumes "code_of (CONFIG_LANGUAGES targetLang) = Inr c"
    and "encodeURIComponent text = Inl e" and "i < 2"
  shows "(apis ! i) net text targetLang = ([], Rejected e 0)"
proof -
  from assms(3) have "i = 0 \<or> i = Suc 0"
    by auto
  with assms(1,2) show ?thesis
    by (auto simp add: apis_nth translateWithLingva_def translateWithMyMemory_def)
qed

lemma apis_contract:
  assumes "code_of (CONFIG_LANGUAGES targetLang) = Inr c" and "i < length apis"
    and "i = 2 \<or> encodeURIComponent text = Inr encoded"
  shows "\<exists>req. fst ((apis ! i) net text targetLang) = [req] \<and> signal req = None \<and>
           adapter_contract i (net req) (snd ((apis ! i) net text targetLang))"
proof -
  from assms(2) have "i = 0 \<or> i = Suc 0 \<or> i = 2"
    by (auto simp add: length_apis)
  then show ?thesis
    using assms(3) lingva_contract [OF assms(1)] mymemory_contract [OF assms(1)]
      libretranslate_contract [OF assms(1)]
    by (auto simp add: apis_nth)
qed

lemma apis_shape:
  assumes "i < length apis"
  shows "(\<exists>e. (apis ! i) net text targetLang = ([], Rejected e 0)) \<or>
    (\<exists>req. fst ((apis ! i) net text targetLang) = [req] \<and> signal req = None \<and>
       adapter_contract i (net req) (snd ((apis ! i) net text targetLang)))"
proof (cases "code_of (CONFIG_LANGUAGES targetLang)")
  case (Inl e)
  from apis_undefined [OF Inl assms] show ?thesis
    by blast
next
  case (Inr c)
  show ?thesis
  proof (cases "encodeURIComponent text")
    case (Inr encoded)
    with apis_contract [OF \<open>code_of (CONFIG_LANGUAGES targetLang) = Inr c\<close> assms]
    show ?thesis
      by blast
  next
    case (Inl e)
    show ?thesis
    proof (cases "i = 2")
      case True
      with apis_contract [OF Inr assms] show ?thesis
        by blast
    next
      case False
      with assms have "i < 2"
        by (simp add: length_apis)
      from apis_unencodable [OF Inr Inl this] show ?thesis
        by blast
    qed
  qed
qed

lemma apis_signal:
  assumes "i < length apis" and "r \<in> set (fst ((apis ! i) net text targetLang))"
  shows "signal r = None"
  using apis_shape [OF assms(1), of net "text" targetLang] assms(2) by auto

lemma contract_fulfilled:
  assumes "adapter_contract i reply (Fulfilled r t)"
  shows "apiUsed r = api_name (APIS ! i)"
  using assms
  by (auto simp add: adapter_contract_def split: promise.splits if_splits)

lemma fulfilled_defined:
  assumes "i < length apis" and "(apis ! i) net text targetLang = (reqs, Fulfilled r t)"
  shows "\<exists>n. name_of (CONFIG_LANGUAGES targetLang) = Inr n"
    and "apiUsed r = api_name (APIS ! i)"
proof -
  have "\<exists>c. code_of (CONFIG_LANGUAGES targetLang) = Inr c"
  proof (cases "code_of (CONFIG_LANGUAGES targetLang)")
    case (Inl e)
    from apis_undefined [OF Inl assms(1), of net "text"] assms(2) show ?thesis by simp
  next
    case (Inr c)
    then show ?thesis by blast
  qed
  then show "\<exists>n. name_of (CONFIG_LANGUAGES targetLang) = Inr n"
    by (cases "CONFIG_LANGUAGES targetLang") auto
  from apis_shape [OF assms(1), of net "text" targetLang] assms(2)
  show "apiUsed r = api_name (APIS ! i)"
    by (auto dest: contract_fulfilled)
qed

section \<open>Facts about a run\<close>

lemmas adapter_defs =
  translateWithLingva_def translateWithMyMemory_def translateWithLibreTranslate_def
  APIS_def CONFIG_LANGUAGES_def LANGUAGES_def Object_prototype_def
  encodeURIComponent_def unat_ascii ascii_eq_Nil uri_unreserved_def escape_def utf8_def
  percent_encode_def hex_digit_def trailing_surrogate_def leading_surrogate_def
  fetch_get_def ok_def JSON_stringify_def Let_def

lemmas run_defs =
  translateText_def loop_unrolled returned_def called_def caught_def abort_def start_def
  TIMEOUT_def valid_language_def

lemma attempt_fails_race: "attempt_fails p \<longleftrightarrow> (\<exists>e. race p = Inl e)"
  by (cases p) (simp_all add: TIMEOUT_def)

lemma race_Inl_fails: "race p = Inl e \<Longrightarrow> attempt_fails p"
  by (auto simp add: attempt_fails_race)

lemma race_Inr_succeeds: "race p = Inr r \<Longrightarrow> \<not> attempt_fails p"
  by (auto simp add: attempt_fails_race)

lemma loop_outcome:
  "fst (translate_loop net text targetLang 0 w) =
     (if attempt_fails (snd (translateWithLingva net text targetLang)) then
        if attempt_fails (snd (translateWithMyMemory net text targetLang)) then
          if attempt_fails (snd (translateWithLibreTranslate net text targetLang))
          then Inl (Error ''All translation APIs failed. Please try again later.'')
          else map_sum id returned (race (snd (translateWithLibreTranslate net text targetLang)))
        else map_sum id returned (race (snd (translateWithMyMemory net text targetLang)))
      else map_sum id returned (race (snd (translateWithLingva net text targetLang))))"
proof (cases "race (snd (translateWithLingva net text targetLang))")
  case a: (Inr r)
  from race_Inr_succeeds [OF a] a show ?thesis
    by (simp add: loop_unrolled)
next
  case a: (Inl e0)
  show ?thesis
  proof (cases "race (snd (translateWithMyMemory net text targetLang))")
    case b: (Inr r)
    from race_Inl_fails [OF a] race_Inr_succeeds [OF b] a b show ?thesis
      by (simp add: loop_unrolled)
  next
    case b: (Inl e1)
    show ?thesis
    proof (cases "race (snd (translateWithLibreTranslate net text targetLang))")
      case c: (Inr r)
      from race_Inl_fails [OF a] race_Inl_fails [OF b] race_Inr_succeeds [OF c] a b c
      show ?thesis
        by (simp add: loop_unrolled)
    next
      case c: (Inl e2)
      from race_Inl_fails [OF a] race_Inl_fails [OF b] race_Inl_fails [OF c] a b c
      show ?thesis
        by (simp add: loop_unrolled)
    qed
  qed
qed

lemma not_fails_returns:
  "\<not> attempt_fails p \<Longrightarrow> \<exists>r. map_sum id returned (race p) = Inr (returned r)"
  by (cases "race p") (auto simp add: attempt_fails_race)

lemma exceeds_timeout_race:
  "exceeds_timeout p \<Longrightarrow> race p = Inl (Error ''Request timeout'') \<and> timed_out p"
  by (cases p) simp_all

lemma race_win_in_time: "race p = Inr r \<Longrightarrow> \<not> timed_out p"
  by (cases p) (simp_all split: if_splits)

lemma abort_unsignalled:
  assumes "\<forall>r \<in> set reqs. signal r = None"
  shows "abort i reqs w = w\<lparr>abandoned := abandoned w @ reqs\<rparr>"
proof -
  from assms have "filter (\<lambda>r. signal r = Some i) reqs = []"
    and "filter (\<lambda>r. signal r \<noteq> Some i) reqs = reqs"
    by (simp_all add: filter_empty_conv filter_id_conv)
  then show ?thesis
    by (simp add: abort_def)
qed

lemma apis_abort:
  assumes "i < length apis"
  shows "abort i (fst ((apis ! i) net text targetLang)) w =
    w\<lparr>abandoned := abandoned w @ fst ((apis ! i) net text targetLang)\<rparr>"
  using apis_signal [OF assms] by (intro abort_unsignalled) blast

lemma invoked_prefix:
  "invoked (snd (translateText net text targetLang start)) \<in> {[], [0], [0, 1], [0, 1, 2]}"
  unfolding translateText_def loop_unrolled
  by (simp add: called_def caught_def abort_def start_def Let_def split: sum.splits)

lemma lingva_cong:
  assumes "\<forall>req \<in> set (fst (translateWithLingva net text targetLang)). net' req = net req"
  shows "translateWithLingva net' text targetLang = translateWithLingva net text targetLang"
  using assms
  by (cases "code_of (CONFIG_LANGUAGES targetLang)"; cases "encodeURIComponent text")
    (simp_all add: translateWithLingva_def Let_def)

lemma mymemory_cong:
  assumes "\<forall>req \<in> set (fst (translateWithMyMemory net text targetLang)). net' req = net req"
  shows "translateWithMyMemory net' text targetLang = translateWithMyMemory net text targetLang"
  using assms
  by (cases "code_of (CONFIG_LANGUAGES targetLang)"; cases "encodeURIComponent text")
    (simp_all add: translateWithMyMemory_def Let_def)

lemma libretranslate_cong:
  assumes "\<forall>req \<in> set (fst (translateWithLibreTranslate net text targetLang)).
      net' req = net req"
  shows "translateWithLibreTranslate net' text targetLang =
    translateWithLibreTranslate net text targetLang"
  using assms
  by (cases "code_of (CONFIG_LANGUAGES targetLang)")
    (simp_all add: translateWithLibreTranslate_def Let_def)

lemma concat_filter:
  "concat (map f (filter P xs)) = concat (map (\<lambda>x. if P x then f x else []) xs)"
  by (induction xs) simp_all

lemma caught_unsignalled:
  assumes "\<forall>r \<in> set reqs. signal r = None"
  shows "caught i reqs p e w =
    w\<lparr>warned := warned w @ [(i + 1, e)],
      abandoned := abandoned w @ (if timed_out p then reqs else [])\<rparr>"
  by (simp add: caught_def abort_unsignalled [OF assms])

lemma loop_globals: "globals (snd (translate_loop net text targetLang 0 w)) = globals w"
  unfolding loop_unrolled
  by (simp add: called_def caught_def abort_def Let_def split: sum.splits)

lemma translateText_globals: "globals (snd (translateText net text targetLang w)) = globals w"
  by (cases "name_of (CONFIG_LANGUAGES targetLang)")
    (simp_all add: translateText_def loop_globals)

lemma translateText_outcome:
  "fst (translateText net text targetLang w) = fst (translateText net text targetLang w')"
  by (cases "name_of (CONFIG_LANGUAGES targetLang)")
    (simp_all add: translateText_def loop_outcome)

lemma translateText_cong:
  assumes "\<forall>a \<in> set apis. \<forall>req \<in> set (fst (a net text targetLang)). net' req = net req"
  shows "translateText net' text targetLang w = translateText net text targetLang w"
proof -
  from assms have A: "\<forall>req \<in> set (fst (translateWithLingva net text targetLang)).
      net' req = net req"
    and B: "\<forall>req \<in> set (fst (translateWithMyMemory net text targetLang)).
      net' req = net req"
    and C: "\<forall>req \<in> set (fst (translateWithLibreTranslate net text targetLang)).
      net' req = net req"
    by (simp_all add: apis_def)
  show ?thesis
    unfolding translateText_def loop_unrolled
    by (simp only: lingva_cong [OF A] mymemory_cong [OF B] libretranslate_cong [OF C])
qed

lemma timed_out_attempts_are_abandoned:
  "aborted (snd (translateText net text targetLang start)) = [] \<and>
   abandoned (snd (translateText net text targetLang start)) =
     concat (map (\<lambda>i. fst ((apis ! i) net text targetLang))
       (filter (\<lambda>i. timed_out (snd ((apis ! i) net text targetLang)))
          (invoked (snd (translateText net text targetLang start)))))"
proof (cases "name_of (CONFIG_LANGUAGES targetLang)")
  case (Inl e)
  then show ?thesis
    by (simp add: translateText_def start_def)
next
  case (Inr nm)
  have sA: "\<forall>r \<in> set (fst (translateWithLingva net text targetLang)). signal r = None"
    using apis_signal [of 0 _ net "text" targetLang] by (simp add: length_apis apis_nth)
  have sB: "\<forall>r \<in> set (fst (translateWithMyMemory net text targetLang)). signal r = None"
    using apis_signal [of "Suc 0" _ net "text" targetLang] by (simp add: length_apis apis_nth)
  have sC: "\<forall>r \<in> set (fst (translateWithLibreTranslate net text targetLang)).
      signal r = None"
    using apis_signal [of 2 _ net "text" targetLang] by (simp add: length_apis apis_nth)
  note caught = caught_unsignalled [OF sA] caught_unsignalled [OF sB] caught_unsignalled [OF sC]
  note defs = translateText_def loop_unrolled called_def start_def concat_filter apis_nth
  show ?thesis
  proof (cases "race (snd (translateWithLingva net text targetLang))")
    case a: (Inr r)
    from race_win_in_time [OF a] a Inr show ?thesis
      by (simp add: defs)
  next
    case a: (Inl e0)
    show ?thesis
    proof (cases "race (snd (translateWithMyMemory net text targetLang))")
      case b: (Inr r)
      from race_win_in_time [OF b] a b Inr show ?thesis
        by (simp add: defs caught)
    next
      case b: (Inl e1)
      show ?thesis
      proof (cases "race (snd (translateWithLibreTranslate net text targetLang))")
        case c: (Inr r)
        from race_win_in_time [OF c] a b c Inr show ?thesis
          by (simp add: defs caught)
      next
        case c: (Inl e2)
        from a b c Inr show ?thesis
          by (simp add: defs caught)
      qed
    qed
  qed
qed

section \<open>Claims\<close>

text \<open>
  C1. When the first adapter (Lingva) succeeds, that is, its promise is fulfilled
  before the timeout, \<open>translateText\<close> returns its translated text under its provider
  name, and Lingva is the only adapter invoked: MyMemory and LibreTranslate are not
  called and no request other than Lingva's is made. This holds for every text and
  target language, the valid ones among them, and in every world the call starts in.
\<close>

theorem first_success_short_circuits:
  assumes "translateWithLingva net text targetLang = (reqs, Fulfilled r t)"
    and "t < TIMEOUT"
  shows "translateText net text targetLang w =
    (Inr \<lparr>translatedText = translatedText r, apiUsed = ''Lingva Translate'',
          detectedLanguage = Some JNull, detectedConfidence = Some JNull\<rparr>,
     w\<lparr>invoked := invoked w @ [0], fetched := fetched w @ reqs\<rparr>)"
proof -
  have A: "(apis ! 0) net text targetLang = (reqs, Fulfilled r t)"
    using assms(1) by (simp add: apis_nth)
  have n: "0 < length apis"
    by (simp add: length_apis)
  from fulfilled_defined [OF n A]
  obtain nm where nm: "name_of (CONFIG_LANGUAGES targetLang) = Inr nm"
    and used: "apiUsed r = ''Lingva Translate''"
    by (auto simp add: APIS_def)
  from assms(2) have "race (Fulfilled r t) = Inr r"
    by simp
  from loop_returns [OF n A this, of w] nm used show ?thesis
    by (simp add: translateText_def returned_def called_def)
qed

theorem first_success_short_circuits_witness:
  "translateText lingva_up (ascii ''Hello, world!'') ''fr'' start =
    (Inr \<lparr>translatedText = Some (JString (ascii ''Bonjour, le monde!'')),
          apiUsed = ''Lingva Translate'',
          detectedLanguage = Some JNull, detectedConfidence = Some JNull\<rparr>,
     start\<lparr>invoked := [0],
           fetched := [fetch_get ''https://lingva.ml/api/v1/auto/fr/Hello%2C%20world!'']\<rparr>)"
proof -
  have "translateWithLingva lingva_up (ascii ''Hello, world!'') ''fr'' =
      ([fetch_get ''https://lingva.ml/api/v1/auto/fr/Hello%2C%20world!''],
       Fulfilled \<lparr>translatedText = Some (JString (ascii ''Bonjour, le monde!'')),
                  apiUsed = ''Lingva Translate''\<rparr> 130)"
    by (simp add: adapter_defs lingva_up_def)
  from first_success_short_circuits [OF this, of start] show ?thesis
    by (simp add: TIMEOUT_def start_def)
qed

text \<open>
  C2. For a valid target language, \<open>translateText\<close> throws the aggregate error
  (\<open>All translation APIs failed. Please try again later.\<close>) if and only if all
  three adapters fail, where an adapter fails when its promise is rejected, never
  settles, or is fulfilled only once the 10000 ms of the timer have passed; whatever
  the reasons of the individual failures, that one error, whose message is not
  empty, is the only error the caller can receive.
\<close>

theorem aggregate_error_iff_all_fail:
  assumes "valid_language targetLang"
  shows "(fst (translateText net text targetLang w) =
            Inl (Error ''All translation APIs failed. Please try again later.'')) =
         list_all (\<lambda>a. attempt_fails (snd (a net text targetLang))) apis \<and>
    (\<forall>e. fst (translateText net text targetLang w) = Inl e \<longrightarrow>
         e = Error ''All translation APIs failed. Please try again later.'') \<and>
    ''All translation APIs failed. Please try again later.'' \<noteq> []"
proof -
  from assms obtain nm where nm: "name_of (CONFIG_LANGUAGES targetLang) = Inr nm"
    by (auto simp add: valid_language_def LANGUAGES_def CONFIG_LANGUAGES_def)
  have run: "fst (translateText net text targetLang w) =
      fst (translate_loop net text targetLang 0 w)"
    using nm by (simp add: translateText_def)
  show ?thesis
    unfolding run loop_outcome
    using not_fails_returns [of "snd (translateWithLingva net text targetLang)"]
      not_fails_returns [of "snd (translateWithMyMemory net text targetLang)"]
      not_fails_returns [of "snd (translateWithLibreTranslate net text targetLang)"]
    by (auto simp add: apis_def)
qed

theorem aggregate_error_iff_all_fail_witness:
  "valid_language ''fr'' \<and>
   list_all (\<lambda>a. attempt_fails (snd (a failing (ascii ''Hello, world!'') ''fr''))) apis \<and>
   fst (translateText failing (ascii ''Hello, world!'') ''fr'' start) =
     Inl (Error ''All translation APIs failed. Please try again later.'')"
proof -
  have v: "valid_language ''fr''"
    by (simp add: valid_language_def LANGUAGES_def)
  have all: "list_all (\<lambda>a. attempt_fails (snd (a failing (ascii ''Hello, world!'') ''fr''))) apis"
    by (simp add: apis_def adapter_defs failing_def)
  from aggregate_error_iff_all_fail [OF v, of failing "ascii ''Hello, world!''" start]
  have "(fst (translateText failing (ascii ''Hello, world!'') ''fr'' start) =
      Inl (Error ''All translation APIs failed. Please try again later.'')) =
      list_all (\<lambda>a. attempt_fails (snd (a failing (ascii ''Hello, world!'') ''fr''))) apis"
    by (rule conjunct1)
  with all have "fst (translateText failing (ascii ''Hello, world!'') ''fr'' start) =
      Inl (Error ''All translation APIs failed. Please try again later.'')"
    by (rule iffD2 [rotated])
  with v all show ?thesis
    by (intro conjI)
qed

text \<open>
  C3. An attempt whose promise has not settled when more than 10000 ms have passed
  (it never settles, or settles later, even with a translation) is treated as
  failed: the loop reports \<open>Request timeout\<close> for it, leaves its requests in flight
  and goes on with the next adapter in order, or throws the aggregate error when it
  was the last one. No adapter is called twice in a run.
\<close>

theorem timeout_falls_through:
  assumes "i < length apis"
    and "(apis ! i) net text targetLang = (reqs, p)"
    and "exceeds_timeout p"
  shows "translate_loop net text targetLang i w =
      (let w' = (called i reqs w)
                  \<lparr>warned := warned w @ [(i + 1, Error ''Request timeout'')],
                   abandoned := abandoned w @ reqs\<rparr>
       in if i = length apis - 1
          then (Inl (Error ''All translation APIs failed. Please try again later.''), w')
          else translate_loop net text targetLang (i + 1) w') \<and>
    distinct (invoked (snd (translateText net text targetLang start)))"
proof -
  from exceeds_timeout_race [OF assms(3)]
  have late: "race p = Inl (Error ''Request timeout'')" and out: "timed_out p"
    by simp_all
  from apis_abort [OF assms(1), of net "text" targetLang] assms(2)
  have "abort i reqs (called i reqs w) =
      (called i reqs w)\<lparr>abandoned := abandoned (called i reqs w) @ reqs\<rparr>"
    by simp
  with out have c: "caught i reqs p (Error ''Request timeout'') (called i reqs w) =
      (called i reqs w)
        \<lparr>warned := warned w @ [(i + 1, Error ''Request timeout'')],
         abandoned := abandoned w @ reqs\<rparr>"
    by (simp add: caught_def called_def)
  have step: "translate_loop net text targetLang i w =
      (let w' = (called i reqs w)
                  \<lparr>warned := warned w @ [(i + 1, Error ''Request timeout'')],
                   abandoned := abandoned w @ reqs\<rparr>
       in if i = length apis - 1
          then (Inl (Error ''All translation APIs failed. Please try again later.''), w')
          else translate_loop net text targetLang (i + 1) w')"
    unfolding Let_def c [symmetric]
    by (rule loop_continues [OF assms(1,2) late])
  from invoked_prefix [of net "text" targetLang]
  have "distinct (invoked (snd (translateText net text targetLang start)))"
    by auto
  with step show ?thesis
    by (rule conjI)
qed

theorem timeout_falls_through_witness:
  "exceeds_timeout (snd (translateWithLingva lingva_slow (ascii ''Hello'') ''fr'')) \<and>
   snd (translateWithLingva lingva_slow (ascii ''Hello'') ''fr'') =
     Fulfilled \<lparr>translatedText = Some (JString (ascii ''Bonjour'')),
                apiUsed = ''Lingva Translate''\<rparr> 15000 \<and>
   translate_loop lingva_slow (ascii ''Hello'') ''fr'' 0 start =
     translate_loop lingva_slow (ascii ''Hello'') ''fr'' 1
       (start\<lparr>invoked := [0],
              fetched := [fetch_get ''https://lingva.ml/api/v1/auto/fr/Hello''],
              warned := [(1, Error ''Request timeout'')],
              abandoned := [fetch_get ''https://lingva.ml/api/v1/auto/fr/Hello'']\<rparr>) \<and>
   distinct (invoked (snd (translateText lingva_slow (ascii ''Hello'') ''fr'' start)))"
proof -
  have n: "0 < length apis"
    by (simp add: length_apis)
  have A: "(apis ! 0) lingva_slow (ascii ''Hello'') ''fr'' =
      ([fetch_get ''https://lingva.ml/api/v1/auto/fr/Hello''],
       Fulfilled \<lparr>translatedText = Some (JString (ascii ''Bonjour'')),
                  apiUsed = ''Lingva Translate''\<rparr> 15000)"
    by (simp add: apis_nth adapter_defs lingva_slow_def)
  have late: "exceeds_timeout
      (Fulfilled \<lparr>translatedText = Some (JString (ascii ''Bonjour'')),
                  apiUsed = ''Lingva Translate''\<rparr> 15000)"
    by (simp add: TIMEOUT_def)
  from timeout_falls_through [OF n A late, of start] A late show ?thesis
    by (simp add: apis_nth length_apis called_def start_def)
qed

text \<open>
  C4. When the first attempt (Lingva) fails, by rejection or by timeout, and the
  second adapter (MyMemory) is fulfilled before the timeout, \<open>translateText\<close>
  returns MyMemory's translated text under the provider name \<open>MyMemory\<close>; the
  adapters invoked are Lingva and MyMemory, in that order, and LibreTranslate is
  never invoked: the requests made are those of the first two adapters.
\<close>

theorem second_success_after_first_failure:
  assumes "translateWithLingva net text targetLang = (reqsA, pA)"
    and "attempt_fails pA"
    and "translateWithMyMemory net text targetLang = (reqsB, Fulfilled r t)"
    and "t < TIMEOUT"
  shows "fst (translateText net text targetLang start) =
      Inr \<lparr>translatedText = translatedText r, apiUsed = ''MyMemory'',
           detectedLanguage = Some JNull, detectedConfidence = Some JNull\<rparr> \<and>
    invoked (snd (translateText net text targetLang start)) = [0, 1] \<and>
    fetched (snd (translateText net text targetLang start)) = reqsA @ reqsB"
proof -
  have B: "(apis ! 1) net text targetLang = (reqsB, Fulfilled r t)"
    using assms(3) by (simp add: apis_nth)
  have n: "1 < length apis"
    by (simp add: length_apis)
  from fulfilled_defined [OF n B]
  obtain nm where nm: "name_of (CONFIG_LANGUAGES targetLang) = Inr nm"
    and used: "apiUsed r = ''MyMemory''"
    by (auto simp add: APIS_def)
  from assms(2) obtain e where e: "race pA = Inl e"
    by (auto simp add: attempt_fails_race)
  from assms(4) have win: "race (Fulfilled r t) = Inr r"
    by simp
  show ?thesis
    unfolding translateText_def loop_unrolled
    using nm used e win assms(1,3)
    by (simp add: returned_def called_def caught_def abort_def start_def Let_def)
qed

theorem second_success_after_first_failure_witness:
  "fst (translateText mymemory_up (ascii ''Hello, world!'') ''fr'' start) =
      Inr \<lparr>translatedText = Some (JString (ascii ''Bonjour'')), apiUsed = ''MyMemory'',
           detectedLanguage = Some JNull, detectedConfidence = Some JNull\<rparr> \<and>
   invoked (snd (translateText mymemory_up (ascii ''Hello, world!'') ''fr'' start)) = [0, 1] \<and>
   length (fetched (snd (translateText mymemory_up (ascii ''Hello, world!'') ''fr'' start))) = 2"
proof -
  have A: "translateWithLingva mymemory_up (ascii ''Hello, world!'') ''fr'' =
      ([fetch_get ''https://lingva.ml/api/v1/auto/fr/Hello%2C%20world!''],
       Rejected (Error (''HTTP '' @ show_nat 500)) 80)"
    by (simp add: adapter_defs mymemory_up_def)
  have fails: "attempt_fails (Rejected (Error (''HTTP '' @ show_nat 500)) 80 :: translation promise)"
    by simp
  have B: "translateWithMyMemory mymemory_up (ascii ''Hello, world!'') ''fr'' =
      ([fetch_get
         ''https://api.mymemory.translated.net/get?q=Hello%2C%20world!&langpair=en|fr''],
       Fulfilled \<lparr>translatedText = Some (JString (ascii ''Bonjour'')),
                  apiUsed = ''MyMemory''\<rparr> 210)"
    by (simp add: adapter_defs mymemory_up_def)
  have "(210::nat) < TIMEOUT"
    by (simp add: TIMEOUT_def)
  from second_success_after_first_failure [OF A fails B this] show ?thesis
    by simp
qed

text \<open>
  C5. The body that the LibreTranslate adapter posts for the text
  \<open>Hello, world!\<close> and the target \<open>fr\<close>: a JSON object with the four keys \<open>q\<close>,
  \<open>source\<close>, \<open>target\<close> and \<open>format\<close>, in which \<open>source\<close> is the fixed string \<open>en\<close>,
  not \<open>auto\<close>.
\<close>

theorem libretranslate_sends_source_en:
  "fst (translateWithLibreTranslate net (ascii ''Hello, world!'') ''fr'') =
     [\<lparr>url = ''https://libretranslate.com/translate'', method = ''POST'',
       headers = [(''Content-Type'', ''application/json'')],
       body = Some (JObject
         [(''q'', JString (ascii ''Hello, world!'')), (''source'', JString (ascii ''en'')),
          (''target'', JString (ascii ''fr'')), (''format'', JString (ascii ''text''))]),
       signal = None\<rparr>] \<and>
   JString (ascii ''en'') \<noteq> JString (ascii ''auto'')"
  by (simp add: adapter_defs ascii_def)

text \<open>
  C6, as amended. For a valid target language: when the text holds an unpaired
  surrogate, the two adapters that put it in the URL (Lingva and MyMemory) fail
  with the URIError of \<open>encodeURIComponent\<close> and make no request. Otherwise each
  adapter makes one request, and its promise follows the reply to it: it stays
  pending while the exchange does; it is rejected when \<open>fetch\<close> rejects, when the
  status is outside 200 to 299, when the body cannot be read as JSON, or when the
  adapter's expected field (Lingva: \<open>translation\<close>; MyMemory:
  \<open>responseData.translatedText\<close>; LibreTranslate: \<open>translatedText\<close>) is missing or holds
  a falsy value (null, false, 0 or the empty string); otherwise it is fulfilled with
  that field's value and the provider's name.
\<close>

theorem adapter_fails_exactly_when:
  assumes "valid_language targetLang" and "i < length apis"
  shows "if i < 2 \<and> \<not> isWellFormed text
         then (apis ! i) net text targetLang = ([], Rejected URIError 0)
         else (\<exists>req. fst ((apis ! i) net text targetLang) = [req] \<and>
                 adapter_contract i (net req) (snd ((apis ! i) net text targetLang)))"
proof (cases "i < 2 \<and> \<not> isWellFormed text")
  case True
  with encodeURIComponent_cases [of "text"] have "encodeURIComponent text = Inl URIError"
    by blast
  from apis_unencodable [OF valid_language_code [OF assms(1)] this, of i net] True
  show ?thesis
    by simp
next
  case False
  with assms(2) have "i = 2 \<or> isWellFormed text"
    by (auto simp add: length_apis)
  with encodeURIComponent_cases [of "text"]
  obtain encoded where "i = 2 \<or> encodeURIComponent text = Inr encoded"
    by blast
  from apis_contract [OF valid_language_code [OF assms(1)] assms(2) this, of net] False
  show ?thesis
    by auto
qed

theorem adapter_fails_exactly_when_witness:
  "valid_language ''fr'' \<and> (0::nat) < length apis \<and>
   snd ((apis ! 0) lingva_up (ascii ''Hello, world!'') ''fr'') =
     Fulfilled \<lparr>translatedText = Some (JString (ascii ''Bonjour, le monde!'')),
                apiUsed = ''Lingva Translate''\<rparr> 130 \<and>
   (apis ! 0) lingva_up [0xD800] ''fr'' = ([], Rejected URIError 0)"
proof -
  have v: "valid_language ''fr''"
    by (simp add: valid_language_def LANGUAGES_def)
  have n: "(0::nat) < length apis"
    by (simp add: length_apis)
  have wf: "isWellFormed (ascii ''Hello, world!'')"
    by (simp add: isWellFormed_def unat_ascii trailing_surrogate_def leading_surrogate_def)
  from adapter_fails_exactly_when [OF v n, of "ascii ''Hello, world!''" lingva_up] wf
  obtain req where req: "fst ((apis ! 0) lingva_up (ascii ''Hello, world!'') ''fr'') = [req]"
    and c: "adapter_contract 0 (lingva_up req)
              (snd ((apis ! 0) lingva_up (ascii ''Hello, world!'') ''fr''))"
    by auto
  have "fst ((apis ! 0) lingva_up (ascii ''Hello, world!'') ''fr'') =
      [fetch_get ''https://lingva.ml/api/v1/auto/fr/Hello%2C%20world!'']"
    by (simp add: apis_nth adapter_defs)
  with req have "req = fetch_get ''https://lingva.ml/api/v1/auto/fr/Hello%2C%20world!''"
    by simp
  then have "lingva_up req =
      Fulfilled \<lparr>status = 200,
        json = Fulfilled
          (JObject [(''translation'', JString (ascii ''Bonjour, le monde!''))]) 130\<rparr> 120"
    by (simp add: lingva_up_def fetch_get_def)
  with c have good: "snd ((apis ! 0) lingva_up (ascii ''Hello, world!'') ''fr'') =
      Fulfilled \<lparr>translatedText = Some (JString (ascii ''Bonjour, le monde!'')),
                 apiUsed = ''Lingva Translate''\<rparr> 130"
    by (simp add: adapter_contract_def ok_def expected_field_def APIS_def ascii_eq_Nil)
  have "\<not> isWellFormed [0xD800]"
    by (simp add: isWellFormed_def trailing_surrogate_def leading_surrogate_def)
  with adapter_fails_exactly_when [OF v n, of "[0xD800]" lingva_up]
  have "(apis ! 0) lingva_up [0xD800] ''fr'' = ([], Rejected URIError 0)"
    by simp
  with v n good show ?thesis
    by (intro conjI)
qed

text \<open>
  C6 as stated fails when the field is there but empty: the transport succeeds, the
  status is 200 and the body has the field \<open>translation\<close>, holding the empty string,
  yet the Lingva adapter rejects with \<open>No translation in response\<close>.
\<close>

theorem empty_translation_rejected:
  "empty_translation (fetch_get ''https://lingva.ml/api/v1/auto/fr/Hi'') =
     Fulfilled \<lparr>status = 200,
       json = Fulfilled
         (JObject [(''translation'', JString []), (''translatedText'', JString [])]) 130\<rparr> 120 \<and>
   expected_field 0 (JObject [(''translation'', JString []), (''translatedText'', JString [])]) =
     Some (JString []) \<and>
   translateWithLingva empty_translation (ascii ''Hi'') ''fr'' =
     ([fetch_get ''https://lingva.ml/api/v1/auto/fr/Hi''],
      Rejected (Error ''No translation in response'') 130)"
  by (simp add: adapter_defs empty_translation_def expected_field_def)

text \<open>
  C7. Calling \<open>translateText\<close> twice with the same text and target language against a
  stable provider set yields identical results: the first call, started in any
  world, leaves the state of the script as it found it, and a second call, started
  in the world the first one left and given the same replies to the requests the
  adapters make, returns the same result (or throws the same error) and again
  leaves the state unchanged.
\<close>

theorem second_call_same_result:
  assumes "translateText net text targetLang w = (result, w1)"
    and "\<forall>a \<in> set apis. \<forall>req \<in> set (fst (a net text targetLang)). net' req = net req"
  shows "globals w1 = globals w \<and>
    fst (translateText net' text targetLang w1) = result \<and>
    globals (snd (translateText net' text targetLang w1)) = globals w"
proof -
  from assms(1) translateText_globals [of net "text" targetLang w]
  have g: "globals w1 = globals w"
    by simp
  from translateText_cong [OF assms(2), of w1]
    translateText_outcome [of net "text" targetLang w1 w] assms(1)
  have "fst (translateText net' text targetLang w1) = result"
    by simp
  moreover from translateText_globals [of net' "text" targetLang w1] g
  have "globals (snd (translateText net' text targetLang w1)) = globals w"
    by simp
  ultimately show ?thesis
    using g by simp
qed

theorem second_call_same_result_witness:
  "lingva_up_french (fetch_get ''https://lingva.ml/api/v1/auto/hi/Hello'') \<noteq>
     lingva_up (fetch_get ''https://lingva.ml/api/v1/auto/hi/Hello'') \<and>
   fst (translateText lingva_up_french (ascii ''Hello, world!'') ''fr''
          (snd (translateText lingva_up (ascii ''Hello, world!'') ''fr'' start))) =
     fst (translateText lingva_up (ascii ''Hello, world!'') ''fr'' start) \<and>
   globals (snd (translateText lingva_up (ascii ''Hello, world!'') ''fr'' start)) =
     globals start"
proof -
  have stable: "\<forall>a \<in> set apis.
      \<forall>req \<in> set (fst (a lingva_up (ascii ''Hello, world!'') ''fr'')).
        lingva_up_french req = lingva_up req"
    by (simp add: apis_def adapter_defs lingva_up_def lingva_up_french_def)
  have first: "translateText lingva_up (ascii ''Hello, world!'') ''fr'' start =
      (fst (translateText lingva_up (ascii ''Hello, world!'') ''fr'' start),
       snd (translateText lingva_up (ascii ''Hello, world!'') ''fr'' start))"
    by simp
  from second_call_same_result [OF first stable]
  have same: "fst (translateText lingva_up_french (ascii ''Hello, world!'') ''fr''
          (snd (translateText lingva_up (ascii ''Hello, world!'') ''fr'' start))) =
      fst (translateText lingva_up (ascii ''Hello, world!'') ''fr'' start) \<and>
    globals (snd (translateText lingva_up (ascii ''Hello, world!'') ''fr'' start)) =
      globals start"
    by blast
  have "lingva_up_french (fetch_get ''https://lingva.ml/api/v1/auto/hi/Hello'') \<noteq>
      lingva_up (fetch_get ''https://lingva.ml/api/v1/auto/hi/Hello'')"
    by (simp add: lingva_up_def lingva_up_french_def fetch_get_def)
  then show ?thesis
    using same by (rule conjI)
qed

text \<open>
  C8. When no provider answers, every attempt is ended by its timer, and
  \<open>controller.abort()\<close> runs each time; but no adapter passes the controller's signal
  to \<open>fetch\<close>, so the call cancels nothing: after the run no request has been
  aborted, and the three requests made are all still in flight.
\<close>

theorem timed_out_request_not_aborted:
  "timed_out (snd (translateWithLingva silent (ascii ''Hi'') ''fr'')) \<and>
   aborted (snd (translateText silent (ascii ''Hi'') ''fr'' start)) = [] \<and>
   abandoned (snd (translateText silent (ascii ''Hi'') ''fr'' start)) =
     fetched (snd (translateText silent (ascii ''Hi'') ''fr'' start)) \<and>
   map url (abandoned (snd (translateText silent (ascii ''Hi'') ''fr'' start))) =
     [''https://lingva.ml/api/v1/auto/fr/Hi'',
      ''https://api.mymemory.translated.net/get?q=Hi&langpair=en|fr'',
      ''https://libretranslate.com/translate'']"
  by (simp add: run_defs adapter_defs silent_def)

text \<open>
  C9. The \<open>throw\<close> after the loop (\<open>Translation failed with all APIs\<close>) is never
  reached: \<open>translateText\<close> never fails with that error, and the loop started at the
  first adapter either returns a result or throws the aggregate error in its last
  iteration.
\<close>

theorem final_throw_unreachable:
  "fst (translateText net text targetLang w) \<noteq>
     Inl (Error ''Translation failed with all APIs'') \<and>
   ((\<exists>result. fst (translate_loop net text targetLang 0 w) = Inr result) \<or>
    fst (translate_loop net text targetLang 0 w) =
      Inl (Error ''All translation APIs failed. Please try again later.''))"
proof -
  have loop: "(\<exists>result. fst (translate_loop net text targetLang 0 w) = Inr result) \<or>
      fst (translate_loop net text targetLang 0 w) =
        Inl (Error ''All translation APIs failed. Please try again later.'')"
    unfolding loop_outcome
    using not_fails_returns [of "snd (translateWithLingva net text targetLang)"]
      not_fails_returns [of "snd (translateWithMyMemory net text targetLang)"]
      not_fails_returns [of "snd (translateWithLibreTranslate net text targetLang)"]
    by auto
  have "fst (translateText net text targetLang w) \<noteq>
      Inl (Error ''Translation failed with all APIs'')"
  proof (cases "name_of (CONFIG_LANGUAGES targetLang)")
    case (Inl e)
    then have "e = TypeError"
      by (cases "CONFIG_LANGUAGES targetLang") auto
    with Inl show ?thesis
      by (simp add: translateText_def)
  next
    case (Inr nm)
    with loop show ?thesis
      by (auto simp add: translateText_def)
  qed
  with loop show ?thesis
    by blast
qed

text \<open>
  C10, as amended. When the target language is neither one of the four supported
  codes nor the name of a property that \<open>CONFIG.LANGUAGES\<close> inherits from
  \<open>Object.prototype\<close>, \<open>translateText\<close> throws a TypeError before any adapter is
  invoked, and no request is made: the world is left as it was.
\<close>

theorem unknown_language_throws:
  assumes "\<not> valid_language targetLang"
    and "targetLang \<notin> set (map fst Object_prototype)"
  shows "translateText net text targetLang w = (Inl TypeError, w)"
proof -
  from assms(1) have "map_of LANGUAGES targetLang = None"
    by (simp add: valid_language_def map_of_eq_None_iff)
  moreover from assms(2) have "map_of Object_prototype targetLang = None"
    by (simp add: map_of_eq_None_iff)
  ultimately show ?thesis
    by (simp add: translateText_def CONFIG_LANGUAGES_def)
qed

theorem unknown_language_throws_witness:
  "\<not> valid_language ''de'' \<and> ''de'' \<notin> set (map fst Object_prototype) \<and>
   translateText lingva_up (ascii ''Hello, world!'') ''de'' start = (Inl TypeError, start)"
proof -
  have a: "\<not> valid_language ''de''"
    by (simp add: valid_language_def LANGUAGES_def)
  have b: "''de'' \<notin> set (map fst Object_prototype)"
    by (simp add: Object_prototype_def)
  from a b unknown_language_throws [OF a b, of lingva_up "ascii ''Hello, world!''" start]
  show ?thesis
    by simp
qed

text \<open>
  C10 as stated fails for a key inherited from \<open>Object.prototype\<close>: \<open>toString\<close> is
  not a supported code, yet reading \<open>.name\<close> of the inherited function does not
  throw, all three adapters are invoked and three requests are made, with
  \<open>undefined\<close> in place of the language code.
\<close>

theorem inherited_key_reaches_adapters:
  "\<not> valid_language ''toString'' \<and>
   fst (translateText unreachable (ascii ''Hi'') ''toString'' start) =
     Inl (Error ''All translation APIs failed. Please try again later.'') \<and>
   fst (translateText unreachable (ascii ''Hi'') ''toString'' start) \<noteq> Inl TypeError \<and>
   invoked (snd (translateText unreachable (ascii ''Hi'') ''toString'' start)) = [0, 1, 2] \<and>
   map url (fetched (snd (translateText unreachable (ascii ''Hi'') ''toString'' start))) =
     [''https://lingva.ml/api/v1/auto/undefined/Hi'',
      ''https://api.mymemory.translated.net/get?q=Hi&langpair=en|undefined'',
      ''https://libretranslate.com/translate'']"
  by (simp add: run_defs adapter_defs unreachable_def)

end
